theory Spec2Isabelle
  imports Complex_Main "HOL-Library.Multiset"
begin

section \<open>JavaScript values and numbers\<close>

text \<open>
  The goal engine (\<^verbatim>\<open>backend/models/HealthGoal.js\<close>, \<^verbatim>\<open>backend/controllers/goalController.js\<close>)
  and the scoring functions (\<^verbatim>\<open>backend/services/aiService.js\<close>) compute on dynamically typed
  values: the schema declares \<^verbatim>\<open>value\<close>, \<^verbatim>\<open>metrics.current\<close> and \<^verbatim>\<open>metrics.target\<close> as
  \<^verbatim>\<open>Mixed\<close>. A number is NaN, an infinity or a finite value; a finite value is modelled by the
  rational it denotes, so that the rounding of IEEE-754 doubles, overflow and the sign of zero
  are outside the model. An object is the list of its own properties; it is a plain data object
  (conversion to a primitive is the inherited one, giving \<^verbatim>\<open>"[object Object]"\<close>). Arrays are not
  modelled. A string is a list of characters with codes below 256.
\<close>

datatype jsnum = NaN | PInf | NInf | Fin rat

datatype jsval =
    JUndefined
  | JNull
  | JBool bool
  | JNum jsnum
  | JStr string
  | JObj "(string \<times> jsval) list"

datatype error = TypeError

subsection \<open>Arithmetic, comparison and \<^verbatim>\<open>Math\<close> functions\<close>

fun js_add :: "jsnum \<Rightarrow> jsnum \<Rightarrow> jsnum" where
  "js_add NaN _ = NaN"
| "js_add _ NaN = NaN"
| "js_add PInf NInf = NaN"
| "js_add NInf PInf = NaN"
| "js_add PInf _ = PInf"
| "js_add _ PInf = PInf"
| "js_add NInf _ = NInf"
| "js_add _ NInf = NInf"
| "js_add (Fin a) (Fin b) = Fin (a + b)"



text \<open>The sign of an infinity times or divided by a finite value; zero counts as positive.\<close>

definition signed_inf :: "bool \<Rightarrow> jsnum" where
  "signed_inf pos = (if pos then PInf else NInf)"

fun js_mul :: "jsnum \<Rightarrow> jsnum \<Rightarrow> jsnum" where
  "js_mul NaN _ = NaN"
| "js_mul _ NaN = NaN"
| "js_mul (Fin a) (Fin b) = Fin (a * b)"
| "js_mul (Fin a) PInf = (if a = 0 then NaN else signed_inf (0 < a))"
| "js_mul (Fin a) NInf = (if a = 0 then NaN else signed_inf (a < 0))"
| "js_mul PInf (Fin b) = (if b = 0 then NaN else signed_inf (0 < b))"
| "js_mul NInf (Fin b) = (if b = 0 then NaN else signed_inf (b < 0))"
| "js_mul PInf PInf = PInf"
| "js_mul NInf NInf = PInf"
| "js_mul PInf NInf = NInf"
| "js_mul NInf PInf = NInf"

fun js_div :: "jsnum \<Rightarrow> jsnum \<Rightarrow> jsnum" where
  "js_div NaN _ = NaN"
| "js_div _ NaN = NaN"
| "js_div (Fin a) (Fin b) =
     (if b = 0 then (if a = 0 then NaN else signed_inf (0 < a)) else Fin (a / b))"
| "js_div (Fin a) PInf = Fin 0"
| "js_div (Fin a) NInf = Fin 0"
| "js_div PInf (Fin b) = signed_inf (0 \<le> b)"
| "js_div NInf (Fin b) = signed_inf (b < 0)"
| "js_div PInf PInf = NaN"
| "js_div NInf NInf = NaN"
| "js_div PInf NInf = NaN"
| "js_div NInf PInf = NaN"

fun js_lt :: "jsnum \<Rightarrow> jsnum \<Rightarrow> bool" where
  "js_lt NaN _ = False"
| "js_lt _ NaN = False"
| "js_lt (Fin a) (Fin b) = (a < b)"
| "js_lt NInf NInf = False"
| "js_lt NInf _ = True"
| "js_lt _ NInf = False"
| "js_lt PInf _ = False"
| "js_lt _ PInf = True"

definition js_gt :: "jsnum \<Rightarrow> jsnum \<Rightarrow> bool" where
  "js_gt a b = js_lt b a"

fun js_le :: "jsnum \<Rightarrow> jsnum \<Rightarrow> bool" where
  "js_le NaN _ = False"
| "js_le _ NaN = False"
| "js_le a b = (\<not> js_lt b a)"

definition js_ge :: "jsnum \<Rightarrow> jsnum \<Rightarrow> bool" where
  "js_ge a b = js_le b a"

definition isNaN :: "jsnum \<Rightarrow> bool" where
  "isNaN a = (a = NaN)"

text \<open>\<^verbatim>\<open>Math.round\<close> rounds to the nearest integer, a tie towards positive infinity.\<close>

definition round_half_up :: "rat \<Rightarrow> int" where
  "round_half_up q = \<lfloor>q + 1 / 2\<rfloor>"

fun math_round :: "jsnum \<Rightarrow> jsnum" where
  "math_round (Fin a) = Fin (of_int (round_half_up a))"
| "math_round a = a"

definition math_min :: "jsnum \<Rightarrow> jsnum \<Rightarrow> jsnum" where
  "math_min a b = (if a = NaN \<or> b = NaN then NaN else if js_lt b a then b else a)"

definition math_max :: "jsnum \<Rightarrow> jsnum \<Rightarrow> jsnum" where
  "math_max a b = (if a = NaN \<or> b = NaN then NaN else if js_lt a b then b else a)"


subsection \<open>Strings to numbers\<close>

definition is_digit :: "char \<Rightarrow> bool" where
  "is_digit c = (48 \<le> (of_char c :: nat) \<and> (of_char c :: nat) \<le> 57)"

definition digit_val :: "char \<Rightarrow> nat" where
  "digit_val c = of_char c - 48"

text \<open>White space and line terminators with a code below 256: TAB, LF, VT, FF, CR, SP, NBSP.\<close>

definition is_ws :: "char \<Rightarrow> bool" where
  "is_ws c = ((of_char c :: nat) \<in> {9, 10, 11, 12, 13, 32, 160})"

definition digits_val :: "string \<Rightarrow> nat" where
  "digits_val ds = foldl (\<lambda>a c. 10 * a + digit_val c) 0 ds"

definition span_digits :: "string \<Rightarrow> string \<times> string" where
  "span_digits s = (takeWhile is_digit s, dropWhile is_digit s)"

text \<open>
  The exponent part \<^verbatim>\<open>e\<close> or \<^verbatim>\<open>E\<close>, an optional sign, one digit at least. The result is the
  exponent and the rest of the input; without a well-formed exponent part nothing is consumed.
\<close>

definition parse_exponent :: "string \<Rightarrow> int \<times> string" where
  "parse_exponent s =
     (case s of
        [] \<Rightarrow> (0, s)
      | c # t \<Rightarrow>
          if c = CHR ''e'' \<or> c = CHR ''E'' then
            (let (neg, u) = (case t of
                               [] \<Rightarrow> (False, t)
                             | d # v \<Rightarrow> if d = CHR ''-'' then (True, v)
                                        else if d = CHR ''+'' then (False, v)
                                        else (False, t));
                 (ds, rest) = span_digits u
             in if ds = [] then (0, s)
                else ((if neg then - int (digits_val ds) else int (digits_val ds)), rest))
          else (0, s))"

definition pow10 :: "int \<Rightarrow> rat" where
  "pow10 e = (if 0 \<le> e then 10 ^ nat e else 1 / 10 ^ nat (- e))"

text \<open>
  The longest prefix that is an unsigned decimal literal: digits, an optional fraction, an
  optional exponent; or a dot followed by digits. \<open>None\<close> when no prefix is one.
\<close>

definition parse_decimal :: "string \<Rightarrow> (rat \<times> string) option" where
  "parse_decimal s =
     (let (ip, r1) = span_digits s;
          (fp, r2) =
            (case r1 of
               [] \<Rightarrow> ([], r1)
             | c # t \<Rightarrow> if c = CHR ''.'' then span_digits t else ([], r1))
      in if ip = [] \<and> fp = [] then None
         else
           (let (e, r3) = parse_exponent r2;
                m = of_nat (digits_val ip) + of_nat (digits_val fp) / 10 ^ length fp
            in Some (m * pow10 e, r3)))"

definition strip_sign :: "string \<Rightarrow> bool \<times> string" where
  "strip_sign s =
     (case s of
        [] \<Rightarrow> (False, s)
      | c # t \<Rightarrow> if c = CHR ''-'' then (True, t) else if c = CHR ''+'' then (False, t)
                 else (False, s))"

text \<open>
  A signed decimal literal or \<^verbatim>\<open>Infinity\<close> at the start of the input, with the rest of the
  input; \<open>None\<close> when the input starts with neither.
\<close>

definition parse_signed :: "string \<Rightarrow> (jsnum \<times> string) option" where
  "parse_signed s =
     (let (neg, u) = strip_sign s
      in if take 8 u = ''Infinity'' then Some (signed_inf (\<not> neg), drop 8 u)
         else (case parse_decimal u of
                 None \<Rightarrow> None
               | Some (q, rest) \<Rightarrow> Some (Fin (if neg then - q else q), rest)))"

text \<open>\<^verbatim>\<open>parseFloat\<close> on a string: leading white space is skipped, trailing input is ignored.\<close>

definition parseFloat_str :: "string \<Rightarrow> jsnum" where
  "parseFloat_str s =
     (case parse_signed (dropWhile is_ws s) of None \<Rightarrow> NaN | Some (n, _) \<Rightarrow> n)"

text \<open>
  \<^verbatim>\<open>parseFloat\<close> converts its argument to a string first: a number prints and parses back to
  itself, and \<^verbatim>\<open>"undefined"\<close>, \<^verbatim>\<open>"null"\<close>, \<^verbatim>\<open>"true"\<close>, \<^verbatim>\<open>"false"\<close> and
  \<^verbatim>\<open>"[object Object]"\<close> start with no number.
\<close>

fun parseFloat :: "jsval \<Rightarrow> jsnum" where
  "parseFloat (JNum n) = n"
| "parseFloat (JStr s) = parseFloat_str s"
| "parseFloat _ = NaN"

definition hex_val :: "char \<Rightarrow> nat option" where
  "hex_val c =
     (let n = (of_char c :: nat)
      in if 48 \<le> n \<and> n \<le> 57 then Some (n - 48)
         else if 97 \<le> n \<and> n \<le> 102 then Some (n - 87)
         else if 65 \<le> n \<and> n \<le> 70 then Some (n - 55)
         else None)"

text \<open>A non-empty run of digits of the given radix, and nothing else.\<close>

definition radix_val :: "nat \<Rightarrow> string \<Rightarrow> nat option" where
  "radix_val r ds =
     (if ds = [] then None
      else foldl (\<lambda>acc c.
                    case (acc, hex_val c) of
                      (Some a, Some d) \<Rightarrow> if d < r then Some (r * a + d) else None
                    | _ \<Rightarrow> None)
                 (Some 0) ds)"

definition trim_ws :: "string \<Rightarrow> string" where
  "trim_ws s = rev (dropWhile is_ws (rev (dropWhile is_ws s)))"

text \<open>
  The conversion of a string to a number that arithmetic and comparison operators apply: white
  space around is ignored, the empty string is 0, and the whole of what is left must be a
  numeric literal (decimal, \<^verbatim>\<open>Infinity\<close>, or an unsigned hexadecimal, octal or binary integer).
\<close>

definition radix_prefix :: "string \<Rightarrow> nat option" where
  "radix_prefix t =
     (if take 2 t = ''0x'' \<or> take 2 t = ''0X'' then Some 16
      else if take 2 t = ''0o'' \<or> take 2 t = ''0O'' then Some 8
      else if take 2 t = ''0b'' \<or> take 2 t = ''0B'' then Some 2
      else None)"

definition to_number_str :: "string \<Rightarrow> jsnum" where
  "to_number_str s =
     (let t = trim_ws s
      in if t = [] then Fin 0
         else (case radix_prefix t of
                 Some r \<Rightarrow> (case radix_val r (drop 2 t) of
                              None \<Rightarrow> NaN
                            | Some n \<Rightarrow> Fin (of_nat n))
               | None \<Rightarrow> (case parse_signed t of
                            None \<Rightarrow> NaN
                          | Some (n, rest) \<Rightarrow> if rest = [] then n else NaN)))"

fun to_number :: "jsval \<Rightarrow> jsnum" where
  "to_number JUndefined = NaN"
| "to_number JNull = Fin 0"
| "to_number (JBool b) = Fin (if b then 1 else 0)"
| "to_number (JNum n) = n"
| "to_number (JStr s) = to_number_str s"
| "to_number (JObj _) = NaN"

subsection \<open>Truthiness, \<^verbatim>\<open>typeof\<close> and property access\<close>

fun truthy :: "jsval \<Rightarrow> bool" where
  "truthy JUndefined = False"
| "truthy JNull = False"
| "truthy (JBool b) = b"
| "truthy (JNum n) = (n \<noteq> NaN \<and> n \<noteq> Fin 0)"
| "truthy (JStr s) = (s \<noteq> [])"
| "truthy (JObj _) = True"

text \<open>\<^verbatim>\<open>typeof v === 'object' && v !== null\<close>\<close>

fun is_object :: "jsval \<Rightarrow> bool" where
  "is_object (JObj _) = True"
| "is_object _ = False"

text \<open>
  \<^verbatim>\<open>v.systolic\<close> and \<^verbatim>\<open>v.diastolic\<close>: reading a property of \<^verbatim>\<open>undefined\<close> or \<^verbatim>\<open>null\<close> throws
  a TypeError; a primitive has neither property; an object has it when it is one of its own.
\<close>

fun get_prop :: "jsval \<Rightarrow> string \<Rightarrow> error + jsval" where
  "get_prop JUndefined k = Inl TypeError"
| "get_prop JNull k = Inl TypeError"
| "get_prop (JObj fs) k = Inr (case map_of fs k of None \<Rightarrow> JUndefined | Some v \<Rightarrow> v)"
| "get_prop _ k = Inr JUndefined"


section \<open>The goal document\<close>

text \<open>
  The fields of \<^verbatim>\<open>HealthGoalSchema\<close>. A date is a valid time value in milliseconds since the
  epoch (the schema casts every date to \<^verbatim>\<open>Date\<close> and requires the date of a check-in). The
  sub-documents \<^verbatim>\<open>relatedMetrics\<close> and \<^verbatim>\<open>reminderSettings\<close> are never read or written by the
  functions below and are left out.
\<close>

datatype goal_status = Active | Completed | Abandoned

datatype frequency = Daily | Weekly | Monthly | Custom

datatype category = Fitness | Nutrition | Mental | SleepCategory | Health | CustomCategory

record checkIn =
  date :: int
  completed :: bool
  "value" :: jsval
  "notes" :: "string option"

record goal =
  user :: string
  title :: string
  description :: "string option"
  category :: category
  status :: goal_status
  progress :: jsnum
  metrics_current :: jsval
  metrics_target :: jsval
  metrics_unit :: "string option"
  frequency :: frequency
  streak :: nat
  startDate :: int
  targetDate :: int
  completedDate :: "int option"
  checkIns :: "checkIn list"
  aiRecommendations :: "string list"

text \<open>
  \<^verbatim>\<open>this.checkIns.sort((a, b) => new Date(b.date) - new Date(a.date))\<close>: descending by date.
  \<^verbatim>\<open>Array.prototype.sort\<close> is stable (ECMAScript 2019), sorts the array in place and returns
  that same array, so the goal's \<^verbatim>\<open>checkIns\<close> field holds the sorted sequence afterwards.
\<close>

definition by_date_desc :: "checkIn list \<Rightarrow> checkIn list" where
  "by_date_desc cs = sort_key (\<lambda>c. - date c) cs"

subsection \<open>\<^verbatim>\<open>calculateProgress\<close>\<close>

text \<open>
  The method returns a number or throws; it may also reorder \<^verbatim>\<open>this.checkIns\<close>. The model
  returns the outcome together with the goal as the call leaves it.
\<close>

definition calculateProgress :: "goal \<Rightarrow> (error + jsnum) \<times> goal" where
  "calculateProgress g =
     (if \<not> truthy (metrics_target g) then (Inr (progress g), g)
      else if status g = Completed then (Inr (Fin 100), g)
      else if length (checkIns g) = 0 then (Inr (Fin 0), g)
      else
        (let g' = g\<lparr>checkIns := by_date_desc (checkIns g)\<rparr>
         in case checkIns g' of
              [] \<Rightarrow> (Inl TypeError, g')
            | latestCheckIn # _ \<Rightarrow>
                if is_object (metrics_current g') then
                  (case (get_prop (metrics_target g') ''systolic'',
                         get_prop (metrics_target g') ''diastolic'') of
                     (Inr ts, Inr td) \<Rightarrow>
                       if truthy ts \<and> truthy td then
                         (case (get_prop (value latestCheckIn) ''systolic'',
                                get_prop (value latestCheckIn) ''diastolic'') of
                            (Inr vs, Inr vd) \<Rightarrow>
                              (let systolicProgress =
                                     js_mul (js_div (to_number vs) (to_number ts)) (Fin 100);
                                   diastolicProgress =
                                     js_mul (js_div (to_number vd) (to_number td)) (Fin 100)
                               in (Inr (math_min
                                          (math_round
                                             (js_div (js_add systolicProgress diastolicProgress)
                                                (Fin 2)))
                                          (Fin 100)), g'))
                          | _ \<Rightarrow> (Inl TypeError, g'))
                       else (Inr (progress g'), g')
                   | _ \<Rightarrow> (Inl TypeError, g'))
                else
                  (let currentValue = parseFloat (value latestCheckIn);
                       targetValue = parseFloat (metrics_target g')
                   in if isNaN currentValue \<or> isNaN targetValue then (Inr (progress g'), g')
                      else (Inr (math_min
                                   (math_round (js_mul (js_div currentValue targetValue) (Fin 100)))
                                   (Fin 100)), g'))))"

subsection \<open>\<^verbatim>\<open>updateStreak\<close>\<close>

definition expectedDiff :: "frequency \<Rightarrow> int" where
  "expectedDiff f = (if f = Weekly then 7 else if f = Monthly then 30 else 1)"

text \<open>\<^verbatim>\<open>Math.round(diffTime / (1000 * 60 * 60 * 24))\<close> for two dates.\<close>

definition diffDays :: "int \<Rightarrow> int \<Rightarrow> int" where
  "diffDays prevDate checkInDate =
     round_half_up (of_int (prevDate - checkInDate) / (1000 * 60 * 60 * 24))"

text \<open>
  The \<^verbatim>\<open>for\<close> loop over \<^verbatim>\<open>sortedCheckIns[1..]\<close>: its state is \<^verbatim>\<open>prevDate\<close> and the
  counter \<^verbatim>\<open>streak\<close> (here \<open>n\<close>), and \<^verbatim>\<open>break\<close> returns the streak counted so far.
  In \<open>updateStreak\<close> the sorted sequence is empty only if the stored one is
  (\<open>by_date_desc_Nil_iff\<close> below), so that its case \<open>[]\<close> is never taken.
\<close>

fun streak_loop :: "frequency \<Rightarrow> int \<Rightarrow> nat \<Rightarrow> checkIn list \<Rightarrow> nat" where
  "streak_loop f prevDate n [] = n"
| "streak_loop f prevDate n (c # cs) =
     (if \<not> completed c \<or> diffDays prevDate (date c) \<noteq> expectedDiff f then n
      else streak_loop f (date c) (n + 1) cs)"

definition updateStreak :: "goal \<Rightarrow> nat \<times> goal" where
  "updateStreak g =
     (if length (checkIns g) = 0 then (0, g)
      else
        (let g' = g\<lparr>checkIns := by_date_desc (checkIns g)\<rparr>
         in case checkIns g' of
              [] \<Rightarrow> (0, g')
            | latestCheckIn # rest \<Rightarrow>
                if \<not> completed latestCheckIn then (0, g')
                else (streak_loop (frequency g') (date latestCheckIn) 1 rest, g')))"


section \<open>The goal controller\<close>


record checkin_request =
  req_user :: string
  body_date :: "int option"
  body_completed :: bool
  body_value :: jsval
  body_notes :: "string option"


text \<open>
  \<^verbatim>\<open>updateGoal\<close> (PUT \<^verbatim>\<open>/api/goals/:id\<close>) passes the request body to
  \<^verbatim>\<open>findByIdAndUpdate(id, req.body, {new: true, runValidators: true})\<close>: every path that the body
  sets replaces the stored value, after the validators of the schema for that path (\<^verbatim>\<open>progress\<close>
  between 0 and 100, \<^verbatim>\<open>title\<close> at most 100 characters, \<^verbatim>\<open>description\<close> at most 500). Nothing
  else is computed.
\<close>

record goal_update =
  u_title :: "string option"
  u_description :: "string option"
  u_category :: "category option"
  u_status :: "goal_status option"
  u_progress :: "jsnum option"
  u_metrics_current :: "jsval option"
  u_metrics_target :: "jsval option"
  u_metrics_unit :: "string option"
  u_frequency :: "frequency option"
  u_streak :: "nat option"
  u_startDate :: "int option"
  u_targetDate :: "int option"
  u_completedDate :: "int option"
  u_checkIns :: "checkIn list option"
  u_aiRecommendations :: "string list option"





section \<open>The scoring functions\<close>

text \<open>A metric sample, with the fields of \<^verbatim>\<open>HealthMetricSchema\<close> that the functions read.\<close>

datatype metric_type =
    HeartRate | BloodPressure | Weight | Glucose | Temperature | OxygenSaturation
  | Steps | Sleep | Calories | Water | CustomMetric

record metric =
  mtype :: metric_type
  "value" :: jsval
  unit :: string
  timestamp :: int





subsection \<open>\<^verbatim>\<open>identifyConcerns\<close>\<close>








section \<open>The specification's wording\<close>

text \<open>
  The definitions of this section follow the sentences of the specification, not the code;
  the theorems below compare them with the functions above.
\<close>

subsection \<open>Streaks\<close>

text \<open>
  The expected gap in days: 1 for daily, 7 for weekly, 30 for monthly; the specification
  defines none for the custom cadence.
\<close>

definition spec_expected_gap :: "frequency \<Rightarrow> int option" where
  "spec_expected_gap f =
     (case f of Daily \<Rightarrow> Some 1 | Weekly \<Rightarrow> Some 7 | Monthly \<Rightarrow> Some 30 | Custom \<Rightarrow> None)"

text \<open>
  A pair of neighbours in descending date order, the more recent first: the older check-in is
  completed and its gap in days (to the nearest whole day) from the more recent one is \<open>gap\<close>.
\<close>

definition on_schedule :: "int \<Rightarrow> checkIn \<times> checkIn \<Rightarrow> bool" where
  "on_schedule gap pc = (completed (snd pc) \<and> diffDays (date (fst pc)) (date (snd pc)) = gap)"

text \<open>
  On the check-ins in descending date order: 0 when there is none or the latest is not
  completed; otherwise 1 plus the number of successive check-ins on schedule, up to the first
  one that is not.
\<close>

definition spec_streak :: "int \<Rightarrow> checkIn list \<Rightarrow> nat" where
  "spec_streak gap desc =
     (case desc of
        [] \<Rightarrow> 0
      | latest # rest \<Rightarrow>
          if \<not> completed latest then 0
          else 1 + length (takeWhile (on_schedule gap) (zip desc rest)))"

subsection \<open>The health score\<close>













subsection \<open>The sleep-consistency concern\<close>





subsection \<open>The cached progress\<close>


section \<open>Example data\<close>

definition example_goal :: goal where
  "example_goal =
     \<lparr>user = ''u1'', title = ''Walk'', description = None, category = Fitness, status = Active,
      progress = Fin 0, metrics_current = JUndefined, metrics_target = JNum (Fin 10000),
      metrics_unit = Some ''steps'', frequency = Daily, streak = 0, startDate = 0,
      targetDate = 8640000000, completedDate = None, checkIns = [], aiRecommendations = []\<rparr>"

definition check_in :: "int \<Rightarrow> bool \<Rightarrow> jsval \<Rightarrow> checkIn" where
  "check_in d c v = \<lparr>date = d, completed = c, value = v, notes = None\<rparr>"

definition day :: int where
  "day = 86400000"

definition no_update :: goal_update where
  "no_update =
     \<lparr>u_title = None, u_description = None, u_category = None, u_status = None,
      u_progress = None, u_metrics_current = None, u_metrics_target = None,
      u_metrics_unit = None, u_frequency = None, u_streak = None, u_startDate = None,
      u_targetDate = None, u_completedDate = None, u_checkIns = None,
      u_aiRecommendations = None\<rparr>"

definition sample :: "metric_type \<Rightarrow> jsval \<Rightarrow> metric" where
  "sample t v = \<lparr>mtype = t, value = v, unit = [], timestamp = 0\<rparr>"

definition num :: "rat \<Rightarrow> jsval" where
  "num q = JNum (Fin q)"

text \<open>A goal with target 100 whose one check-in has the value 50, and its cached progress 50.\<close>

definition goal_half :: goal where
  "goal_half =
     example_goal\<lparr>metrics_target := num 100, progress := Fin 50,
                  checkIns := [check_in day True (num 50)]\<rparr>"

text \<open>The body \<^verbatim>\<open>{"metrics.target": 200}\<close> of a PUT request.\<close>

definition update_target :: goal_update where
  "update_target = no_update\<lparr>u_metrics_target := Some (num 200)\<rparr>"

text \<open>The body \<^verbatim>\<open>{date, completed: true, value: 5000}\<close> of a check-in request of user \<^verbatim>\<open>u1\<close>.\<close>

definition example_request :: checkin_request where
  "example_request =
     \<lparr>req_user = ''u1'', body_date = Some day, body_completed = True,
      body_value = num 5000, body_notes = None\<rparr>"

section \<open>Auxiliary facts\<close>

subsection \<open>Rounding\<close>

lemma round_half_up_of_int_div:
  assumes "0 < b"
  shows "round_half_up (of_int a / of_int b) = (2 * a + b) div (2 * b)"
proof -
  have "(of_int a / of_int b + 1 / 2 :: rat) = of_int (2 * a + b) / of_int (2 * b)"
    using assms by (simp add: field_simps)
  then show ?thesis
    unfolding round_half_up_def by (simp only: floor_divide_of_int_eq)
qed

lemma round_half_up_of_int [simp]: "round_half_up (of_int a) = a"
  using round_half_up_of_int_div[of 1 a] by simp

lemma round_half_up_numeral [simp]: "round_half_up (numeral n) = numeral n"
  using round_half_up_of_int[of "numeral n"] by simp

lemma round_half_up_neg_numeral [simp]: "round_half_up (- numeral n) = - numeral n"
  using round_half_up_of_int[of "- numeral n"] by simp

lemma round_half_up_0 [simp]: "round_half_up 0 = 0"
  using round_half_up_of_int[of 0] by simp

lemma round_half_up_1 [simp]: "round_half_up 1 = 1"
  using round_half_up_of_int[of 1] by simp

lemma round_half_up_numeral_div [simp]:
  "round_half_up (numeral a / numeral b) = (2 * numeral a + numeral b) div (2 * numeral b)"
  using round_half_up_of_int_div[of "numeral b" "numeral a"] by simp

lemma round_half_up_neg_numeral_div [simp]:
  "round_half_up (- (numeral a / numeral b)) =
     (2 * (- numeral a) + numeral b) div (2 * numeral b)"
  using round_half_up_of_int_div[of "numeral b" "- numeral a"] by simp

lemma round_half_up_nonneg: "0 \<le> q \<Longrightarrow> 0 \<le> round_half_up q"
  by (simp add: round_half_up_def)

lemma diffDays_eq:
  "diffDays prevDate checkInDate = (2 * (prevDate - checkInDate) + 86400000) div 172800000"
  using round_half_up_of_int_div[of 86400000 "prevDate - checkInDate"]
  by (simp add: diffDays_def)

subsection \<open>The descending sort\<close>


lemma mset_by_date_desc: "mset (by_date_desc cs) = mset cs"
  by (simp add: by_date_desc_def)

lemma by_date_desc_Nil_iff: "by_date_desc cs = [] \<longleftrightarrow> cs = []"
  by (metis mset_by_date_desc mset_zero_iff)

lemma by_date_desc_Nil [simp]: "by_date_desc [] = []"
  by (simp add: by_date_desc_def)

lemma descending_by_date_desc: "sorted_wrt (\<lambda>a b. date b \<le> date a) (by_date_desc cs)"
proof -
  have "sorted (map (\<lambda>c. - date c) (by_date_desc cs))"
    by (simp add: by_date_desc_def)
  then show ?thesis
    by (simp add: sorted_map sorted_wrt_iff_nth_less)
qed

text \<open>The first check-in of the sorted sequence has the maximal date.\<close>

lemma by_date_desc_head_max:
  assumes "by_date_desc cs = latest # rest" and "c \<in> set cs"
  shows "date c \<le> date latest"
proof -
  have "c \<in> set (by_date_desc cs)"
    using assms(2) by (metis mset_by_date_desc set_mset_mset)
  moreover have "\<forall>x \<in> set rest. date x \<le> date latest"
    using descending_by_date_desc[of cs] assms(1) by simp
  ultimately show ?thesis
    using assms(1) by auto
qed

subsection \<open>What the two methods do to the goal\<close>

lemma calculateProgress_snd:
  "snd (calculateProgress g) = g \<or>
   snd (calculateProgress g) = g\<lparr>checkIns := by_date_desc (checkIns g)\<rparr>"
  by (auto simp: calculateProgress_def Let_def split: list.splits sum.splits prod.splits)

lemma updateStreak_snd:
  "snd (updateStreak g) = g \<or>
   snd (updateStreak g) = g\<lparr>checkIns := by_date_desc (checkIns g)\<rparr>"
  by (auto simp: updateStreak_def Let_def split: list.splits)



subsection \<open>The value that \<^verbatim>\<open>calculateProgress\<close> returns\<close>





subsection \<open>The streak loop\<close>

lemma streak_loop_takeWhile:
  "streak_loop f (date x) n cs =
     n + length (takeWhile (on_schedule (expectedDiff f)) (zip (x # cs) cs))"
  by (induction cs arbitrary: x n) (simp_all add: on_schedule_def)

lemma streak_loop_custom: "streak_loop Custom p n cs = streak_loop Daily p n cs"
  by (induction cs arbitrary: p n) (simp_all add: expectedDiff_def)

lemma updateStreak_spec_gap:
  assumes "spec_expected_gap (frequency g) = Some gap"
  shows "fst (updateStreak g) = spec_streak gap (by_date_desc (checkIns g))"
proof -
  have gap: "expectedDiff (frequency g) = gap"
    using assms by (cases "frequency g") (simp_all add: spec_expected_gap_def expectedDiff_def)
  show ?thesis
    by (cases "by_date_desc (checkIns g)")
      (auto simp: updateStreak_def spec_streak_def Let_def streak_loop_takeWhile gap
            by_date_desc_Nil_iff)
qed

lemma updateStreak_five_days:
  "fst (updateStreak (g\<lparr>frequency := Daily, checkIns :=
      [\<lparr>date = D, completed = True, value = v0, notes = n0\<rparr>,
       \<lparr>date = D - 86400000, completed = True, value = v1, notes = n1\<rparr>,
       \<lparr>date = D - 2 * 86400000, completed = True, value = v2, notes = n2\<rparr>,
       \<lparr>date = D - 3 * 86400000, completed = True, value = v3, notes = n3\<rparr>,
       \<lparr>date = D - 4 * 86400000, completed = True, value = v4, notes = n4\<rparr>]\<rparr>)) = 5"
  by (simp add: updateStreak_def by_date_desc_def diffDays_eq expectedDiff_def)

subsection \<open>The scoring functions\<close>


















text \<open>
  With a non-negative value and a positive target the simple branch stays within [0, 100]; the
  lower bound depends on the sign of the inputs, the upper bound does not.
\<close>

lemma calculateProgress_range_nonneg:
  assumes "status g \<noteq> Completed" and "\<not> is_object (metrics_current g)"
    and "metrics_target g = JNum (Fin t)" and "0 < t"
    and "by_date_desc (checkIns g) = latest # rest"
    and "checkIn.value latest = JNum (Fin v)" and "0 \<le> v"
  shows "\<exists>r. fst (calculateProgress g) = Inr (Fin r) \<and> 0 \<le> r \<and> r \<le> 100"
proof -
  have ne: "checkIns g \<noteq> []"
    using assms(5) by auto
  have "0 \<le> v / t * 100"
    using assms(4,7) by simp
  then have "0 \<le> round_half_up (v / t * 100)"
    by (rule round_half_up_nonneg)
  then show ?thesis
    using assms ne
    by (auto simp: calculateProgress_def Let_def isNaN_def math_min_def)
qed

subsection \<open>Evaluation on concrete data\<close>

lemmas example_defs =
  example_goal_def goal_half_def update_target_def example_request_def no_update_def
  check_in_def day_def num_def sample_def

lemmas goal_eval =
  calculateProgress_def updateStreak_def by_date_desc_def Let_def isNaN_def math_min_def
  js_ge_def js_gt_def diffDays_eq expectedDiff_def

section \<open>The claims\<close>

subsection \<open>C1: the cached progress\<close>




subsection \<open>C2: no check-ins\<close>

text \<open>
  Counterexample to C2 as stated. With the target 0, which is falsy, the method returns the
  cached progress before it looks at the check-ins: on a goal without check-ins whose cached
  progress is 40 it returns 40. And on a completed goal with the target 10000 and no check-in
  it returns 100.
\<close>

theorem calculateProgress_empty_falsy_target:
  "checkIns (example_goal\<lparr>metrics_target := num 0, progress := Fin 40\<rparr>) = [] \<and>
   fst (calculateProgress (example_goal\<lparr>metrics_target := num 0, progress := Fin 40\<rparr>)) =
     Inr (Fin 40) \<and>
   checkIns (example_goal\<lparr>status := Completed\<rparr>) = [] \<and>
   fst (calculateProgress (example_goal\<lparr>status := Completed\<rparr>)) = Inr (Fin 100)"
  by (simp add: example_defs goal_eval)

text \<open>
  C2 (amended). For every truthy target value and every goal that is not completed,
  \<^verbatim>\<open>calculateProgress\<close> applied to an empty check-in list returns 0 (and leaves the goal as it
  is).
\<close>

theorem calculateProgress_empty:
  assumes "truthy (metrics_target g)" and "status g \<noteq> Completed" and "checkIns g = []"
  shows "calculateProgress g = (Inr (Fin 0), g)"
  using assms by (simp add: calculateProgress_def)

text \<open>Witness for C2: the example goal, active, with target 10000 and no check-in.\<close>

theorem calculateProgress_empty_witness:
  "calculateProgress example_goal = (Inr (Fin 0), example_goal)"
proof -
  have "truthy (metrics_target example_goal)" "status example_goal \<noteq> Completed"
    "checkIns example_goal = []"
    by (simp_all add: example_defs)
  then show ?thesis by (rule calculateProgress_empty)
qed

subsection \<open>C10: completed goals\<close>

text \<open>
  Counterexample to C10 as stated. The test of the target comes first: a completed goal
  without a target returns its cached progress, here 40, not 100.
\<close>

theorem calculateProgress_completed_no_target:
  "status (example_goal\<lparr>status := Completed, metrics_target := JUndefined,
                        progress := Fin 40\<rparr>) = Completed \<and>
   fst (calculateProgress (example_goal\<lparr>status := Completed, metrics_target := JUndefined,
                                        progress := Fin 40\<rparr>)) = Inr (Fin 40)"
  by (simp add: example_defs goal_eval)

text \<open>
  C10 (amended). For every goal whose status is \<^verbatim>\<open>completed\<close> and whose target is truthy,
  \<^verbatim>\<open>calculateProgress\<close> returns 100 regardless of the check-in list, also when it is empty.
\<close>

theorem calculateProgress_completed_100:
  assumes "status g = Completed" and "truthy (metrics_target g)"
  shows "calculateProgress g = (Inr (Fin 100), g)"
  using assms by (simp add: calculateProgress_def)

text \<open>Witness for C10: the example goal, completed, with no check-in.\<close>

theorem calculateProgress_completed_100_witness:
  "calculateProgress (example_goal\<lparr>status := Completed\<rparr>) =
     (Inr (Fin 100), example_goal\<lparr>status := Completed\<rparr>)"
proof -
  have "status (example_goal\<lparr>status := Completed\<rparr>) = Completed"
    "truthy (metrics_target (example_goal\<lparr>status := Completed\<rparr>))"
    by (simp_all add: example_defs)
  then show ?thesis by (rule calculateProgress_completed_100)
qed

subsection \<open>C5: the range of the progress\<close>

text \<open>
  C5 at a failing input. The result is capped at 100 and has no lower bound: with the target
  100 and a latest check-in of value -50, \<^verbatim>\<open>calculateProgress\<close> returns -50, below the
  minimum 0 that the schema declares for \<^verbatim>\<open>progress\<close>.
\<close>

theorem calculateProgress_negative:
  "fst (calculateProgress
          (example_goal\<lparr>metrics_target := num 100,
                        checkIns := [check_in day True (num (- 50))]\<rparr>)) = Inr (Fin (- 50))"
  by (simp add: example_defs goal_eval)

subsection \<open>C6: the custom cadence\<close>

text \<open>
  Counterexample to C6 as stated: two completed check-ins one day apart on a goal of custom
  cadence give the streak 2.
\<close>

theorem updateStreak_custom_two:
  "fst (updateStreak
          (example_goal\<lparr>frequency := Custom,
                        checkIns := [check_in day True JUndefined,
                                     check_in (2 * day) True JUndefined]\<rparr>)) = 2"
  by (simp add: example_defs goal_eval)

text \<open>
  C6 (amended). For every check-in list, \<^verbatim>\<open>updateStreak\<close> with the cadence \<^verbatim>\<open>custom\<close> expects
  a gap of one day and returns what it returns for the daily cadence.
\<close>

theorem updateStreak_custom_as_daily:
  "expectedDiff Custom = 1 \<and>
   fst (updateStreak (g\<lparr>frequency := Custom\<rparr>)) = fst (updateStreak (g\<lparr>frequency := Daily\<rparr>))"
  by (simp add: updateStreak_def Let_def streak_loop_custom expectedDiff_def split: list.splits)

text \<open>Witness for C6: three completed check-ins on consecutive days, streak 3 either way.\<close>

theorem updateStreak_custom_as_daily_witness:
  "fst (updateStreak
          (example_goal\<lparr>checkIns := [check_in day True JUndefined,
                                     check_in (2 * day) True JUndefined,
                                     check_in (3 * day) True JUndefined],
                        frequency := Custom\<rparr>)) = 3 \<and>
   fst (updateStreak
          (example_goal\<lparr>checkIns := [check_in day True JUndefined,
                                     check_in (2 * day) True JUndefined,
                                     check_in (3 * day) True JUndefined],
                        frequency := Daily\<rparr>)) = 3"
  using updateStreak_custom_as_daily
    [of "example_goal\<lparr>checkIns := [check_in day True JUndefined,
                                    check_in (2 * day) True JUndefined,
                                    check_in (3 * day) True JUndefined]\<rparr>"]
  by (simp add: example_defs goal_eval)

subsection \<open>C7: values that do not parse\<close>




subsection \<open>C9: what the methods change\<close>

text \<open>
  Counterexample to C9 as stated. \<^verbatim>\<open>this.checkIns.sort(...)\<close> sorts the array of the goal in
  place: with the check-ins of day 1 and day 2 stored in that order, either method leaves them
  in the order day 2, day 1.
\<close>

theorem methods_reorder_checkIns:
  "checkIns (snd (calculateProgress
       (example_goal\<lparr>checkIns := [check_in day True (num 1), check_in (2 * day) True (num 2)]\<rparr>))) =
     [check_in (2 * day) True (num 2), check_in day True (num 1)] \<and>
   checkIns (snd (updateStreak
       (example_goal\<lparr>checkIns := [check_in day True (num 1), check_in (2 * day) True (num 2)]\<rparr>))) =
     [check_in (2 * day) True (num 2), check_in day True (num 1)]"
  by (simp add: example_defs goal_eval)

text \<open>
  C9 (amended). For every goal state, calling \<^verbatim>\<open>calculateProgress\<close> or \<^verbatim>\<open>updateStreak\<close> leaves
  every field of the goal other than \<^verbatim>\<open>checkIns\<close> unchanged, and \<^verbatim>\<open>checkIns\<close> holds the same
  check-ins afterwards, possibly in another order (the methods sort it in place by descending
  date).
\<close>

theorem methods_frame:
  "snd (calculateProgress g) = g\<lparr>checkIns := checkIns (snd (calculateProgress g))\<rparr> \<and>
   mset (checkIns (snd (calculateProgress g))) = mset (checkIns g) \<and>
   snd (updateStreak g) = g\<lparr>checkIns := checkIns (snd (updateStreak g))\<rparr> \<and>
   mset (checkIns (snd (updateStreak g))) = mset (checkIns g)"
  using calculateProgress_snd[of g] updateStreak_snd[of g]
  by (auto simp: mset_by_date_desc)

text \<open>Witness for C9: the goal of the counterexample; only the order of its check-ins changes.\<close>

theorem methods_frame_witness:
  "snd (calculateProgress
       (example_goal\<lparr>checkIns := [check_in day True (num 1), check_in (2 * day) True (num 2)]\<rparr>)) =
     example_goal\<lparr>checkIns := [check_in (2 * day) True (num 2), check_in day True (num 1)]\<rparr> \<and>
   snd (updateStreak
       (example_goal\<lparr>checkIns := [check_in day True (num 1), check_in (2 * day) True (num 2)]\<rparr>)) =
     example_goal\<lparr>checkIns := [check_in (2 * day) True (num 2), check_in day True (num 1)]\<rparr>"
  using methods_frame
    [of "example_goal\<lparr>checkIns := [check_in day True (num 1), check_in (2 * day) True (num 2)]\<rparr>"]
  by (simp add: example_defs goal_eval)

subsection \<open>C3: the streak\<close>

text \<open>
  C3. For every check-in list and every cadence with a defined gap (1 day for daily, 7 for
  weekly, 30 for monthly), \<^verbatim>\<open>updateStreak\<close> returns what the specification says on the
  check-ins in descending date order (\<open>spec_streak\<close>): 0 if the list is empty or the latest
  check-in is not completed, otherwise 1 plus the number of successive check-ins that are
  completed and whose gap in days from the previous one equals the expected gap, up to the
  first that is not. In particular, five completed daily check-ins at D, D-1, ..., D-4 days
  give 5. (The first check-in of the descending order has the maximal date:
  \<open>by_date_desc_head_max\<close>.)
\<close>

theorem updateStreak_spec:
  "(spec_expected_gap (frequency g) = Some gap \<longrightarrow>
      fst (updateStreak g) = spec_streak gap (by_date_desc (checkIns g))) \<and>
   fst (updateStreak (h\<lparr>frequency := Daily, checkIns :=
      [\<lparr>date = D, completed = True, value = v0, notes = n0\<rparr>,
       \<lparr>date = D - 86400000, completed = True, value = v1, notes = n1\<rparr>,
       \<lparr>date = D - 2 * 86400000, completed = True, value = v2, notes = n2\<rparr>,
       \<lparr>date = D - 3 * 86400000, completed = True, value = v3, notes = n3\<rparr>,
       \<lparr>date = D - 4 * 86400000, completed = True, value = v4, notes = n4\<rparr>]\<rparr>)) = 5"
  using updateStreak_spec_gap[of g gap]
    updateStreak_five_days[where g = h and D = D and ?v0.0 = v0 and ?n0.0 = n0 and ?v1.0 = v1
      and ?n1.0 = n1 and ?v2.0 = v2 and ?n2.0 = n2 and ?v3.0 = v3 and ?n3.0 = n3
      and ?v4.0 = v4 and ?n4.0 = n4]
  by blast

text \<open>
  Witness for C3: a weekly goal with check-ins on days 0, 7, 14 and 21, the one of day 7 not
  completed, stored oldest first. The streak is 2: day 21 and day 14.
\<close>

theorem updateStreak_spec_witness:
  "spec_expected_gap (frequency (example_goal\<lparr>frequency := Weekly, checkIns :=
       [check_in 0 True JUndefined, check_in (7 * day) False JUndefined,
        check_in (14 * day) True JUndefined, check_in (21 * day) True JUndefined]\<rparr>)) = Some 7 \<and>
   fst (updateStreak (example_goal\<lparr>frequency := Weekly, checkIns :=
       [check_in 0 True JUndefined, check_in (7 * day) False JUndefined,
        check_in (14 * day) True JUndefined, check_in (21 * day) True JUndefined]\<rparr>)) = 2 \<and>
   spec_streak 7 (by_date_desc
       [check_in 0 True JUndefined, check_in (7 * day) False JUndefined,
        check_in (14 * day) True JUndefined, check_in (21 * day) True JUndefined]) = 2"
  using updateStreak_spec
    [where g = "example_goal\<lparr>frequency := Weekly, checkIns :=
       [check_in 0 True JUndefined, check_in (7 * day) False JUndefined,
        check_in (14 * day) True JUndefined, check_in (21 * day) True JUndefined]\<rparr>"
       and gap = 7]
  by (simp add: example_defs goal_eval spec_expected_gap_def spec_streak_def on_schedule_def)

subsection \<open>C4: the health score\<close>



subsection \<open>C8: the sleep-consistency concern\<close>




end
